theory Spec2Isabelle
  imports Complex_Main "HOL-Library.Finite_Map" "HOL-Library.Sublist"
begin

section \<open>Python strings: find, rfind, slicing, replace\<close>

text \<open>
  Strings are character lists. \<open>str.find\<close> and \<open>str.rfind\<close> return the lowest and the
  highest index of an occurrence, or \<open>-1\<close>; the list versions return an option and the
  Python versions put the \<open>-1\<close> back.
\<close>

definition occurs_at :: "string \<Rightarrow> string \<Rightarrow> nat \<Rightarrow> bool" where
  "occurs_at sub s i = (take (length sub) (drop i s) = sub)"

fun find_list :: "string \<Rightarrow> string \<Rightarrow> nat option" where
  "find_list sub [] = (if sub = [] then Some 0 else None)"
| "find_list sub (c # cs) =
     (if take (length sub) (c # cs) = sub then Some 0
      else map_option Suc (find_list sub cs))"

fun rfind_list :: "string \<Rightarrow> string \<Rightarrow> nat option" where
  "rfind_list sub [] = (if sub = [] then Some 0 else None)"
| "rfind_list sub (c # cs) =
     (case rfind_list sub cs of
        Some i \<Rightarrow> Some (Suc i)
      | None \<Rightarrow> (if take (length sub) (c # cs) = sub then Some 0 else None))"

definition py_find :: "string \<Rightarrow> string \<Rightarrow> int" where
  "py_find s sub = (case find_list sub s of None \<Rightarrow> -1 | Some i \<Rightarrow> int i)"

definition py_rfind :: "string \<Rightarrow> string \<Rightarrow> int" where
  "py_rfind s sub = (case rfind_list sub s of None \<Rightarrow> -1 | Some i \<Rightarrow> int i)"

text \<open>A slice bound as Python clamps it: a negative bound counts from the end.\<close>

definition py_bound :: "string \<Rightarrow> int \<Rightarrow> nat" where
  "py_bound s a =
     (let n = int (length s)
      in nat (if a < 0 then max 0 (a + n) else min a n))"

definition py_slice :: "string \<Rightarrow> int \<Rightarrow> int \<Rightarrow> string" where
  "py_slice s a b = take (py_bound s b - py_bound s a) (drop (py_bound s a) s)"

text \<open>\<open>s.find(sub, start, end)\<close>: the search runs in \<open>s[start:end]\<close>, the index is one of \<open>s\<close>.\<close>

definition py_find_range :: "string \<Rightarrow> string \<Rightarrow> int \<Rightarrow> int \<Rightarrow> int" where
  "py_find_range s sub start end =
     (if (if start < 0 then max 0 (start + int (length s)) else start) > int (length s) then -1
      else case find_list sub (py_slice s start end) of
             None \<Rightarrow> -1
           | Some i \<Rightarrow> int (py_bound s start) + int i)"

definition py_find_from :: "string \<Rightarrow> string \<Rightarrow> int \<Rightarrow> int" where
  "py_find_from s sub start = py_find_range s sub start (int (length s))"

text \<open>\<open>str.replace\<close> of a one-character pattern.\<close>

definition py_replace :: "string \<Rightarrow> char \<Rightarrow> string \<Rightarrow> string" where
  "py_replace s c t = concat (map (\<lambda>x. if x = c then t else [x]) s)"

definition is_digit :: "char \<Rightarrow> bool" where
  "is_digit c = (c \<in> set ''0123456789'')"

text \<open>
  \<open>re.sub(r'scale\[[0-9]+\]', 'scale[50]', img)\<close>: leftmost, non-overlapping matches of
  \<open>scale[\<close>, one or more digits, \<open>]\<close>. The greedy digit run cannot be shortened to reach a
  \<open>]\<close>, so a match is the whole run followed by \<open>]\<close>.
\<close>

function re_sub_scale :: "string \<Rightarrow> string" where
  "re_sub_scale [] = []"
| "re_sub_scale (c # cs) =
     (if take 6 (c # cs) = ''scale[''
         \<and> takeWhile is_digit (drop 6 (c # cs)) \<noteq> []
         \<and> take 1 (dropWhile is_digit (drop 6 (c # cs))) = '']''
      then ''scale[50]'' @ re_sub_scale (drop 1 (dropWhile is_digit (drop 6 (c # cs))))
      else c # re_sub_scale cs)"
  by pat_completeness auto
termination
proof (relation "measure length")
  show "wf (measure length)" by simp
next
  fix c :: char and cs :: string
  have "length (dropWhile is_digit (drop 6 (c # cs))) \<le> length (drop 6 (c # cs))"
    by (rule length_dropWhile_le)
  then show "(drop 1 (dropWhile is_digit (drop 6 (c # cs))), c # cs) \<in> measure length"
    by simp
next
  fix c :: char and cs :: string
  show "(cs, c # cs) \<in> measure length" by simp
qed

section \<open>Raw search results and the formatted product list\<close>

text \<open>
  One entry of the \<open>results\<close> list of a Discovery response. Every key the code looks up
  with \<open>in\<close> is optional. A score is a JSON number; the code only compares scores with
  \<open>>\<close>, which on finite floating-point numbers is the order of the numbers they denote, so
  a score is modelled by the number it denotes.
\<close>

record raw_result =
  score :: "real option"
  text_blob :: "string option"
  html :: "string option"
  extracted_metadata :: "string option option"

record product_data =
  cart_number :: string
  name :: string
  url :: string
  image :: string

record discovery_response =
  results :: "raw_result list option"
  matching_results :: "nat option"

definition DISCOVERY_QUERY_COUNT :: nat where
  "DISCOVERY_QUERY_COUNT = 10"

definition DISCOVERY_KEEP_COUNT :: nat where
  "DISCOVERY_KEEP_COUNT = 5"

definition product_tag :: string where
  "product_tag = ''Product:''"

definition category_tag :: string where
  "category_tag = ''Category:''"

definition get_product_name :: "raw_result \<Rightarrow> string \<Rightarrow> string" where
  "get_product_name entry data_source =
     (if data_source = ''amazon'' then
        (case extracted_metadata entry of
           None \<Rightarrow> []
         | Some metadata \<Rightarrow> (case metadata of None \<Rightarrow> [] | Some title \<Rightarrow> title))
      else if data_source = ''ibm_store'' then
        (case text_blob entry of
           None \<Rightarrow> []
         | Some text \<Rightarrow>
             (let sidx = py_find text product_tag in
              if sidx > 0 then
                (let sidx' = sidx + int (length product_tag);
                     eidx = py_find_range text category_tag sidx' (int (length text))
                 in if eidx > 0 then py_slice text sidx' (eidx - 1) else [])
              else []))
      else [])"

definition amazon_href_tag :: string where
  "amazon_href_tag = ''<a href=''"

definition url_start :: string where
  "url_start = ''http://www.logostore-globalid.us''"

definition ibm_href_tag :: string where
  "ibm_href_tag = ''/ProductDetail.aspx?pid=''"

definition get_product_url :: "raw_result \<Rightarrow> string \<Rightarrow> string" where
  "get_product_url entry data_source =
     (case html entry of
        None \<Rightarrow> []
      | Some h \<Rightarrow>
          (if data_source = ''amazon'' then
             (let sidx = py_rfind h amazon_href_tag in
              if sidx > 0 then
                (let sidx' = sidx + int (length amazon_href_tag);
                     eidx = py_find_range h ''>'' sidx' (int (length h))
                 in if eidx > 0 then py_slice h (sidx' + 1) (eidx - 1) else [])
              else [])
           else if data_source = ''ibm_store'' then
             (let sidx = py_find h ibm_href_tag in
              if sidx > 0 then
                (let sidx' = sidx + int (length ibm_href_tag);
                     product_id = py_slice h sidx' (sidx' + 6)
                 in url_start @ ibm_href_tag @ product_id)
              else [])
           else []))"

definition dquote :: string where
  "dquote = [CHR 0x22]"

definition img_tag :: string where
  "img_tag = ''<a class='' @ dquote @ ''jqzoom'' @ dquote @ '' href='' @ dquote"

definition get_image_url :: "raw_result \<Rightarrow> string \<Rightarrow> string" where
  "get_image_url entry data_source =
     (if data_source = ''amazon'' then get_product_url entry data_source
      else if data_source = ''ibm_store'' then
        (case html entry of
           None \<Rightarrow> []
         | Some h \<Rightarrow>
             (let simg = py_find h img_tag in
              if simg > 0 then
                (let simg' = simg + int (length img_tag);
                     eimg = py_find_from h dquote simg'
                 in if eimg > 0 then re_sub_scale (py_slice h simg' eimg) else [])
              else []))
      else [])"

definition slack_encode :: "string \<Rightarrow> string" where
  "slack_encode input_text =
     (if input_text = [] then input_text
      else py_replace (py_replace (py_replace input_text CHR ''&'' ''&amp;'')
                         CHR ''<'' ''&lt;'') CHR ''>'' ''&gt;'')"

text \<open>\<open>str\<close> of an integer: the decimal digits, with a minus sign below zero.\<close>

fun str_nat :: "nat \<Rightarrow> string" where
  "str_nat n =
     (if n < 10 then [''0123456789'' ! n]
      else str_nat (n div 10) @ [''0123456789'' ! (n mod 10)])"

definition py_str :: "int \<Rightarrow> string" where
  "py_str i = (if i < 0 then CHR ''-'' # str_nat (nat (- i)) else str_nat (nat i))"

definition make_product_data :: "raw_result \<Rightarrow> string \<Rightarrow> int \<Rightarrow> product_data" where
  "make_product_data result data_source n =
     \<lparr> cart_number = py_str n,
       name = slack_encode (get_product_name result data_source),
       url = slack_encode (get_product_url result data_source),
       image = slack_encode (get_image_url result data_source) \<rparr>"

text \<open>
  The loop \<open>for i in range(min(len(results), DISCOVERY_KEEP_COUNT))\<close>, with its counter
  \<open>cart_number\<close> and its accumulator \<open>output\<close>. An index outside \<open>results\<close> would raise
  IndexError, which ends the function with \<open>None\<close>.
\<close>

fun format_loop ::
  "raw_result list \<Rightarrow> string \<Rightarrow> nat list \<Rightarrow> int \<Rightarrow> product_data list \<Rightarrow> product_data list option"
where
  "format_loop rs data_source [] n output = Some output"
| "format_loop rs data_source (i # is) n output =
     (if i < length rs
      then format_loop rs data_source is (n + 1)
             (output @ [make_product_data (rs ! i) data_source n])
      else None)"

definition format_discovery_response ::
  "discovery_response \<Rightarrow> string \<Rightarrow> product_data list option"
where
  "format_discovery_response response data_source =
     (case results response of
        None \<Rightarrow> Some []
      | Some rs \<Rightarrow>
          (if rs = [] then Some []
           else format_loop rs data_source [0 ..< min (length rs) DISCOVERY_KEEP_COUNT] 1 []))"

section \<open>Context values, exceptions and the session\<close>

text \<open>
  The values the Conversation service puts into the context, as \<open>json.loads\<close> delivers
  them: \<open>None\<close>, booleans, integers, floats, strings, lists and dictionaries. A string is
  the list of its code points, each below 256. The exceptions of the code are values of
  \<open>py_error\<close>; \<open>ExternalError\<close> is an exception raised by a service client and carries
  its \<open>repr\<close>.
\<close>

datatype pyfloat = Finite real | PosInf | NegInf | NaN

datatype pyval =
  PNone | PBool bool | PInt int | PFloat pyfloat | PStr string
| PList "pyval list" | PDict "(string \<times> pyval) list"

datatype py_error =
  ValueError | TypeError | KeyError | AttributeError | IndexError | OverflowError
| ExternalError string

type_synonym context_dict = "(string, pyval) fmap"

fun truthy :: "pyval \<Rightarrow> bool" where
  "truthy PNone = False"
| "truthy (PBool b) = b"
| "truthy (PInt i) = (i \<noteq> 0)"
| "truthy (PFloat f) = (f \<noteq> Finite 0)"
| "truthy (PStr s) = (s \<noteq> [])"
| "truthy (PList xs) = (xs \<noteq> [])"
| "truthy (PDict kvs) = (kvs \<noteq> [])"

text \<open>
  \<open>int(x)\<close>. On a string: surrounding whitespace is dropped, one sign is allowed, and the
  rest must be decimal digits, where single underscores may stand between two digits;
  anything else is a ValueError. A float is cut towards zero; not-a-number is a ValueError
  and an infinity an OverflowError. On \<open>None\<close>, a list or a dictionary it is a TypeError.
  The handlers catch ValueError only.
\<close>

definition is_space :: "char \<Rightarrow> bool" where
  "is_space c =
     (c \<in> set [CHR '' '', CHR 0x09, CHR 0x0A, CHR 0x0B, CHR 0x0C, CHR 0x0D,
                CHR 0x1C, CHR 0x1D, CHR 0x1E, CHR 0x1F, CHR 0x85, CHR 0xA0])"

definition strip :: "string \<Rightarrow> string" where
  "strip s = rev (dropWhile is_space (rev (dropWhile is_space s)))"

definition digit_val :: "char \<Rightarrow> nat" where
  "digit_val c = (case find_list [c] ''0123456789'' of None \<Rightarrow> 0 | Some d \<Rightarrow> d)"

definition digits_val :: "string \<Rightarrow> nat" where
  "digits_val ds = foldl (\<lambda>acc c. 10 * acc + digit_val c) 0 ds"

fun digit_part :: "string \<Rightarrow> bool" where
  "digit_part [] = False"
| "digit_part [c] = is_digit c"
| "digit_part (c # d # cs) =
     (is_digit c \<and> (if d = CHR ''_'' then digit_part cs else digit_part (d # cs)))"

definition int_of_digits :: "int \<Rightarrow> string \<Rightarrow> py_error + int" where
  "int_of_digits k ds =
     (if digit_part ds then Inr (k * int (digits_val (filter is_digit ds)))
      else Inl ValueError)"

fun py_int_str :: "string \<Rightarrow> py_error + int" where
  "py_int_str s =
     (case strip s of
        [] \<Rightarrow> Inl ValueError
      | c # cs \<Rightarrow>
          (if c = CHR ''-'' then int_of_digits (- 1) cs
           else if c = CHR ''+'' then int_of_digits 1 cs
           else int_of_digits 1 (c # cs)))"

fun py_int_float :: "pyfloat \<Rightarrow> py_error + int" where
  "py_int_float (Finite r) = Inr (if 0 \<le> r then \<lfloor>r\<rfloor> else \<lceil>r\<rceil>)"
| "py_int_float NaN = Inl ValueError"
| "py_int_float PosInf = Inl OverflowError"
| "py_int_float NegInf = Inl OverflowError"

fun py_int :: "pyval \<Rightarrow> py_error + int" where
  "py_int PNone = Inl TypeError"
| "py_int (PBool b) = Inr (if b then 1 else 0)"
| "py_int (PInt i) = Inr i"
| "py_int (PFloat f) = py_int_float f"
| "py_int (PStr s) = py_int_str s"
| "py_int (PList xs) = Inl TypeError"
| "py_int (PDict kvs) = Inl TypeError"

record customer =
  email :: string
  first_name :: string
  last_name :: string
  shopping_cart :: "string list"

text \<open>
  The calls the handlers issue to the customer store, in order. The store itself is not
  part of this file: its three operations are parameters, and every call is logged.
\<close>

datatype store_call =
  ListShoppingCart string
| AddToShoppingCart string string
| DeleteItemShoppingCart string string

record watson_response =
  wr_context :: "context_dict option"
  wr_output_text :: "string list option"

record 'db services =
  conversation_message :: "string \<Rightarrow> context_dict \<Rightarrow> py_error + watson_response"
  discovery_client :: "(pyval \<Rightarrow> py_error + discovery_response) option"
  fake_discovery :: pyval
  list_shopping_cart :: "'db \<Rightarrow> string \<Rightarrow> string list"
  add_to_shopping_cart :: "'db \<Rightarrow> string \<Rightarrow> string \<Rightarrow> 'db"
  delete_item_shopping_cart :: "'db \<Rightarrow> string \<Rightarrow> string \<Rightarrow> 'db"
  str_encode_utf8 :: "string \<Rightarrow> string"

record 'db store =
  wos_context :: context_dict
  customer :: "customer option"
  response_tuple :: "product_data list option"
  discovery_data_source :: string
  discovery_score_filter :: real
  cloudant :: 'db
  store_calls :: "store_call list"
  sent :: "string list"

definition context_merge :: "context_dict \<Rightarrow> context_dict \<Rightarrow> context_dict" where
  "context_merge dict1 dict2 =
     (let new_dict = dict1
      in if dict2 \<noteq> fmempty then new_dict ++\<^sub>f dict2 else new_dict)"

section \<open>Discovery query\<close>

definition NL :: string where
  "NL = [CHR 0x0A]"

text \<open>
  The score filter of \<open>get_discovery_response\<close>: it runs when the configured minimum
  score is truthy (not zero) and the response has a \<open>results\<close> key.
\<close>

definition score_filter :: "real \<Rightarrow> discovery_response \<Rightarrow> discovery_response" where
  "score_filter t discovery_response =
     (if t \<noteq> 0 \<and> results discovery_response \<noteq> None then
        (let fr = filter (\<lambda>x. case score x of None \<Rightarrow> False | Some v \<Rightarrow> v > t)
                    (the (results discovery_response))
         in discovery_response \<lparr> matching_results := Some (length fr), results := Some fr \<rparr>)
      else discovery_response)"

definition format_item :: "product_data \<Rightarrow> string" where
  "format_item item = NL @ cart_number item @ '') '' @ name item @ NL @ image item"

definition get_discovery_response ::
  "'db services \<Rightarrow> pyval \<Rightarrow> 'db store \<Rightarrow> py_error + (context_dict \<times> 'db store)"
where
  "get_discovery_response sv input_text st =
     (case discovery_client sv of
        None \<Rightarrow> Inl AttributeError
      | Some query \<Rightarrow>
          (case query input_text of
             Inl e \<Rightarrow> Inl e
           | Inr discovery_response \<Rightarrow>
               (case format_discovery_response
                       (score_filter (discovery_score_filter st) discovery_response)
                       (discovery_data_source st) of
                  None \<Rightarrow> Inl IndexError
                | Some response \<Rightarrow>
                    Inr (fmupd ''discovery_result''
                           (PStr (concat (map format_item response))) fmempty,
                         st \<lparr> response_tuple := Some response \<rparr>))))"

text \<open>\<open>repr\<close> of a caught exception; a service client's exception carries its own.\<close>

fun repr_error :: "py_error \<Rightarrow> string" where
  "repr_error (ExternalError r) = r"
| "repr_error ValueError = ''ValueError()''"
| "repr_error TypeError = ''TypeError()''"
| "repr_error KeyError = ''KeyError()''"
| "repr_error AttributeError = ''AttributeError()''"
| "repr_error IndexError = ''IndexError()''"
| "repr_error OverflowError = ''OverflowError()''"

definition handle_DiscoveryQuery ::
  "'db services \<Rightarrow> 'db store \<Rightarrow> py_error + (bool \<times> 'db store)"
where
  "handle_DiscoveryQuery sv st =
     (case fmlookup (wos_context st) ''discovery_string'' of
        None \<Rightarrow> Inl KeyError
      | Some query_string \<Rightarrow>
          (let (response, st') =
                 (if discovery_client sv \<noteq> None then
                    (case get_discovery_response sv query_string st of
                       Inr r \<Rightarrow> r
                     | Inl e \<Rightarrow> (fmupd ''discovery_result'' (PStr (repr_error e)) fmempty, st))
                  else (fmupd ''discovery_result'' (fake_discovery sv) fmempty, st))
           in Inr (False, st' \<lparr> wos_context := context_merge (wos_context st') response \<rparr>)))"

section \<open>Cart handlers\<close>

definition format_cart_line :: "'db services \<Rightarrow> nat \<times> string \<Rightarrow> string" where
  "format_cart_line sv p =
     py_str (int (fst p) + 1) @ '') '' @ str_encode_utf8 sv (snd p) @ NL"

definition handle_list_shopping_cart ::
  "'db services \<Rightarrow> 'db store \<Rightarrow> py_error + (bool \<times> 'db store)"
where
  "handle_list_shopping_cart sv st =
     (case customer st of
        None \<Rightarrow> Inl AttributeError
      | Some c \<Rightarrow>
          (let cust = email c;
               shopping_list = list_shopping_cart sv (cloudant st) cust;
               formatted_out = concat (map (format_cart_line sv) (enumerate 0 shopping_list))
           in Inr (False,
                   st \<lparr> wos_context :=
                          fmupd ''shopping_cart'' (PStr formatted_out) (wos_context st),
                        store_calls := store_calls st @ [ListShoppingCart cust] \<rparr>)))"

definition clear_shopping_cart :: "'db store \<Rightarrow> 'db store" where
  "clear_shopping_cart st =
     st \<lparr> wos_context :=
            fmupd ''cart_item'' (PStr []) (fmupd ''shopping_cart'' (PStr []) (wos_context st)) \<rparr>"

fun delete_loop ::
  "'db services \<Rightarrow> string \<Rightarrow> int \<Rightarrow> (nat \<times> string) list \<Rightarrow> 'db store \<Rightarrow> 'db store"
where
  "delete_loop sv em item_num [] st = st"
| "delete_loop sv em item_num ((index, item) # rest) st =
     delete_loop sv em item_num rest
       (if int index + 1 = item_num
        then st \<lparr> cloudant := delete_item_shopping_cart sv (cloudant st) em item,
                  store_calls := store_calls st @ [DeleteItemShoppingCart em item] \<rparr>
        else st)"

definition handle_delete_from_cart ::
  "'db services \<Rightarrow> 'db store \<Rightarrow> py_error + (bool \<times> 'db store)"
where
  "handle_delete_from_cart sv st =
     (case customer st of
        None \<Rightarrow> Inl AttributeError
      | Some c \<Rightarrow>
          (let em = email c;
               shopping_list = list_shopping_cart sv (cloudant st) em;
               st1 = st \<lparr> store_calls := store_calls st @ [ListShoppingCart em] \<rparr>
           in case fmlookup (wos_context st1) ''cart_item'' of
                None \<Rightarrow> Inl KeyError
              | Some v \<Rightarrow>
                  (case py_int v of
                     Inl ValueError \<Rightarrow> Inr (False, st1)
                   | Inl e \<Rightarrow> Inl e
                   | Inr item_num \<Rightarrow>
                       Inr (False,
                            clear_shopping_cart
                              (delete_loop sv em item_num (enumerate 0 shopping_list) st1)))))"

fun add_loop ::
  "'db services \<Rightarrow> string \<Rightarrow> int \<Rightarrow> (nat \<times> product_data) list \<Rightarrow> 'db store \<Rightarrow> 'db store"
where
  "add_loop sv em cart_item [] st = st"
| "add_loop sv em cart_item ((index, entry) # rest) st =
     add_loop sv em cart_item rest
       (if int index + 1 = cart_item
        then (let item = name entry @ '': '' @ url entry @ NL
              in st \<lparr> cloudant := add_to_shopping_cart sv (cloudant st) em item,
                      store_calls := store_calls st @ [AddToShoppingCart em item] \<rparr>)
        else st)"

definition handle_add_to_cart ::
  "'db services \<Rightarrow> 'db store \<Rightarrow> py_error + (bool \<times> 'db store)"
where
  "handle_add_to_cart sv st =
     (case fmlookup (wos_context st) ''cart_item'' of
        None \<Rightarrow> Inl KeyError
      | Some v \<Rightarrow>
          (case py_int v of
             Inl ValueError \<Rightarrow> Inr (False, st)
           | Inl e \<Rightarrow> Inl e
           | Inr cart_item \<Rightarrow>
               (case customer st of
                  None \<Rightarrow> Inl AttributeError
                | Some c \<Rightarrow>
                    (case response_tuple st of
                       None \<Rightarrow> Inl TypeError
                     | Some entries \<Rightarrow>
                         Inr (False,
                              clear_shopping_cart
                                (add_loop sv (email c) cart_item (enumerate 0 entries) st))))))"

section \<open>The message handler\<close>

text \<open>
  The context checks of \<open>handle_message\<close>, in the order of the source. The first one
  that holds decides the action; the result is \<open>True\<close> when user input is required.
  The message sent to the channel is recorded in \<open>sent\<close>; the channel and the store are
  taken to return from every call, the Conversation and Discovery clients may raise.
\<close>

definition context_action ::
  "'db services \<Rightarrow> 'db store \<Rightarrow> py_error + (bool \<times> 'db store)"
where
  "context_action sv st =
     (let ctx = wos_context st in
      if (case fmlookup ctx ''discovery_string'' of None \<Rightarrow> False | Some v \<Rightarrow> truthy v)
         \<and> discovery_client sv \<noteq> None
      then handle_DiscoveryQuery sv st
      else if fmlookup ctx ''shopping_cart'' = Some (PStr ''list'')
      then handle_list_shopping_cart sv st
      else if fmlookup ctx ''shopping_cart'' = Some (PStr ''add'')
              \<and> (case fmlookup ctx ''cart_item'' of None \<Rightarrow> False | Some v \<Rightarrow> v \<noteq> PStr [])
      then handle_add_to_cart sv st
      else if fmlookup ctx ''shopping_cart'' = Some (PStr ''delete'')
              \<and> (case fmlookup ctx ''cart_item'' of None \<Rightarrow> False | Some v \<Rightarrow> v \<noteq> PStr [])
      then handle_delete_from_cart sv st
      else if fmlookup ctx ''get_input'' = Some (PStr ''no'')
      then Inr (False, st)
      else Inr (True, st))"

definition handle_message ::
  "'db services \<Rightarrow> string \<Rightarrow> 'db store \<Rightarrow> py_error + (bool \<times> 'db store)"
where
  "handle_message sv message st =
     (case conversation_message sv message (wos_context st) of
        Inl e \<Rightarrow> Inl e
      | Inr watson_response \<Rightarrow>
          (let st1 = (case wr_context watson_response of
                        None \<Rightarrow> st
                      | Some c \<Rightarrow> st \<lparr> wos_context := c \<rparr>)
           in case wr_output_text watson_response of
                None \<Rightarrow> Inl KeyError
              | Some texts \<Rightarrow>
                  (let response = concat (map (\<lambda>t. t @ NL) texts)
                   in context_action sv (st1 \<lparr> sent := sent st1 @ [response] \<rparr>))))"

section \<open>A concrete session for running the handlers\<close>

text \<open>
  Modelled from the spec: the customer store (\<open>cloudant_online_store\<close> in the code,
  \<open>CustomerStore\<close> in the spec), whose implementation is not among the source files.
  \<open>list_cart\<close> returns the customer's ordered sequence of strings, \<open>add_cart_item\<close>
  appends an item and \<open>delete_cart_item\<close> removes it. The general theorems below hold
  for every store; this one only serves to run the handlers on concrete inputs.
\<close>

type_synonym mem_db = "string \<Rightarrow> string list"

definition mem_add :: "mem_db \<Rightarrow> string \<Rightarrow> string \<Rightarrow> mem_db" where
  "mem_add db em item = db (em := db em @ [item])"

definition mem_delete :: "mem_db \<Rightarrow> string \<Rightarrow> string \<Rightarrow> mem_db" where
  "mem_delete db em item = db (em := remove1 item (db em))"

definition demo_entry :: "string \<Rightarrow> raw_result" where
  "demo_entry t = \<lparr> score = None, text_blob = Some t, html = None, extracted_metadata = None \<rparr>"

definition demo_html :: "string \<Rightarrow> raw_result" where
  "demo_html h = \<lparr> score = None, text_blob = None, html = Some h, extracted_metadata = None \<rparr>"

definition demo_scored :: "real option \<Rightarrow> raw_result" where
  "demo_scored s = \<lparr> score = s, text_blob = None, html = None, extracted_metadata = None \<rparr>"

definition demo_services :: "context_dict \<Rightarrow> mem_db services" where
  "demo_services reply =
     \<lparr> conversation_message =
         (\<lambda>message ctx. Inr \<lparr> wr_context = Some reply, wr_output_text = Some [''ok''] \<rparr>),
       discovery_client =
         Some (\<lambda>q. Inr \<lparr> results = Some [demo_entry ''x Product: Red Mug Category: Cups''],
                          matching_results = Some 1 \<rparr>),
       fake_discovery = PStr ''fake'',
       list_shopping_cart = (\<lambda>db em. db em),
       add_to_shopping_cart = mem_add,
       delete_item_shopping_cart = mem_delete,
       str_encode_utf8 = (\<lambda>s. s) \<rparr>"

definition demo_customer :: customer where
  "demo_customer =
     \<lparr> email = ''ann@example.com'', first_name = ''Ann'', last_name = ''Lee'',
       shopping_cart = [] \<rparr>"

definition demo_store :: "context_dict \<Rightarrow> customer option \<Rightarrow> mem_db store" where
  "demo_store ctx cust =
     \<lparr> wos_context = ctx,
       customer = cust,
       response_tuple = None,
       discovery_data_source = ''ibm_store'',
       discovery_score_filter = 0,
       cloudant = (\<lambda>em. if em = ''ann@example.com'' then [''mug'', ''pen''] else []),
       store_calls = [],
       sent = [] \<rparr>"

definition ctx_of :: "(string \<times> pyval) list \<Rightarrow> context_dict" where
  "ctx_of kvs = fmap_of_list kvs"

definition demo_anchor :: "string \<Rightarrow> string" where
  "demo_anchor u = amazon_href_tag @ dquote @ u @ dquote @ ''>link</a>''"

section \<open>Facts about searching and slicing\<close>

lemma occurs_at_Cons_Suc [simp]: "occurs_at sub (c # cs) (Suc j) = occurs_at sub cs j"
  by (simp add: occurs_at_def)

lemma occurs_at_Nil [simp]: "occurs_at sub [] j = (sub = [])"
  by (auto simp: occurs_at_def)

lemma occurs_at_drop: "occurs_at sub (drop n s) j = occurs_at sub s (n + j)"
  by (simp add: occurs_at_def add.commute)

lemma occurs_at_append_left: "occurs_at sub (pre @ s) (length pre + j) = occurs_at sub s j"
  by (simp add: occurs_at_def)

lemma occurs_at_here: "occurs_at sub (pre @ sub @ post) (length pre)"
  by (simp add: occurs_at_def)

lemma find_list_Some:
  "find_list sub s = Some i \<Longrightarrow> occurs_at sub s i \<and> (\<forall>j<i. \<not> occurs_at sub s j)"
proof (induction s arbitrary: i)
  case Nil
  then show ?case by (simp split: if_splits)
next
  case (Cons c cs)
  show ?case
  proof (cases "take (length sub) (c # cs) = sub")
    case True
    with Cons.prems show ?thesis by (simp add: occurs_at_def)
  next
    case False
    with Cons.prems obtain k where k: "find_list sub cs = Some k" "i = Suc k"
      by auto
    from Cons.IH [OF k(1)] have ih: "occurs_at sub cs k" "\<forall>j<k. \<not> occurs_at sub cs j"
      by simp_all
    have "\<not> occurs_at sub (c # cs) j" if "j < Suc k" for j
    proof (cases j)
      case 0
      with False show ?thesis by (simp add: occurs_at_def)
    next
      case (Suc m)
      with that ih(2) show ?thesis by simp
    qed
    with ih(1) k(2) show ?thesis by simp
  qed
qed

lemma find_list_None: "find_list sub s = None \<Longrightarrow> \<not> occurs_at sub s j"
proof (induction s arbitrary: j)
  case Nil
  then show ?case by (simp split: if_splits)
next
  case (Cons c cs)
  then show ?case
    by (cases j) (auto simp: occurs_at_def split: if_splits)
qed

lemma find_list_first:
  assumes "occurs_at sub s i" and "\<forall>j<i. \<not> occurs_at sub s j"
  shows "find_list sub s = Some i"
proof (cases "find_list sub s")
  case None
  with assms(1) find_list_None show ?thesis by blast
next
  case (Some k)
  from find_list_Some [OF Some] have "occurs_at sub s k" "\<forall>j<k. \<not> occurs_at sub s j"
    by simp_all
  with assms have "k = i" by (meson nat_neq_iff)
  with Some show ?thesis by simp
qed

lemma find_list_absent: "(\<forall>j. \<not> occurs_at sub s j) \<Longrightarrow> find_list sub s = None"
  using find_list_Some by (cases "find_list sub s") blast+

lemma rfind_list_None: "rfind_list sub s = None \<Longrightarrow> \<not> occurs_at sub s j"
proof (induction s arbitrary: j)
  case Nil
  then show ?case by (simp split: if_splits)
next
  case (Cons c cs)
  then show ?case
    by (cases j) (auto simp: occurs_at_def split: if_splits option.splits)
qed

lemma rfind_list_Some:
  "rfind_list sub s = Some i \<Longrightarrow> occurs_at sub s i \<and> (\<forall>j>i. j \<le> length s \<longrightarrow> \<not> occurs_at sub s j)"
proof (induction s arbitrary: i)
  case Nil
  then show ?case by (simp split: if_splits)
next
  case (Cons c cs)
  show ?case
  proof (cases "rfind_list sub cs")
    case None
    with Cons.prems have i: "i = 0" "take (length sub) (c # cs) = sub"
      by (simp_all split: if_splits)
    have "\<not> occurs_at sub (c # cs) j" if "j > 0" for j
    proof -
      from that obtain m where "j = Suc m" by (cases j) auto
      with None rfind_list_None show ?thesis by simp
    qed
    with i show ?thesis by (simp add: occurs_at_def)
  next
    case (Some k)
    with Cons.prems have i: "i = Suc k" by simp
    from Cons.IH [OF Some]
    have ih: "occurs_at sub cs k" "\<forall>j>k. j \<le> length cs \<longrightarrow> \<not> occurs_at sub cs j"
      by simp_all
    have "\<not> occurs_at sub (c # cs) j" if "j > Suc k" "j \<le> length (c # cs)" for j
    proof -
      from that obtain m where m: "j = Suc m" by (cases j) auto
      with that ih(2) show ?thesis by simp
    qed
    with ih(1) i show ?thesis by simp
  qed
qed

lemma occurs_at_bound: "sub \<noteq> [] \<Longrightarrow> occurs_at sub s j \<Longrightarrow> j < length s"
  by (cases "j < length s") (auto simp: occurs_at_def)

lemma rfind_list_last:
  assumes "sub \<noteq> []" and "occurs_at sub s i" and "\<forall>j>i. \<not> occurs_at sub s j"
  shows "rfind_list sub s = Some i"
proof (cases "rfind_list sub s")
  case None
  with assms(2) rfind_list_None show ?thesis by blast
next
  case (Some k)
  from rfind_list_Some [OF Some]
  have k: "occurs_at sub s k" "\<forall>j>k. j \<le> length s \<longrightarrow> \<not> occurs_at sub s j"
    by simp_all
  from assms(1,2) have "i < length s" by (rule occurs_at_bound)
  with k(2) assms(2) have "\<not> k < i" by auto
  moreover from assms(3) k(1) have "\<not> i < k" by auto
  ultimately have "k = i" by simp
  with Some show ?thesis by simp
qed

lemma rfind_list_absent: "(\<forall>j. \<not> occurs_at sub s j) \<Longrightarrow> rfind_list sub s = None"
  using rfind_list_Some by (cases "rfind_list sub s") blast+

lemma py_slice_nonneg:
  "0 \<le> a \<Longrightarrow> a \<le> int (length s) \<Longrightarrow> 0 \<le> b \<Longrightarrow> b \<le> int (length s) \<Longrightarrow>
   py_slice s a b = take (nat b - nat a) (drop (nat a) s)"
  by (simp add: py_slice_def py_bound_def Let_def min_def)

lemma py_find_range_suffix:
  "0 \<le> a \<Longrightarrow> a \<le> int (length s) \<Longrightarrow>
   py_find_range s sub a (int (length s)) =
     (case find_list sub (drop (nat a) s) of None \<Rightarrow> -1 | Some i \<Rightarrow> a + int i)"
  by (simp add: py_find_range_def py_slice_def py_bound_def Let_def min_def split: option.splits)

lemma all_greater_list_all:
  assumes "sub \<noteq> []"
  shows "(\<forall>j>n. \<not> occurs_at sub s j) = list_all (\<lambda>j. \<not> occurs_at sub s j) [Suc n ..< length s]"
proof -
  have "\<not> occurs_at sub s j" if "\<not> j < length s" for j
    using assms that occurs_at_bound by blast
  then show ?thesis by (auto simp: list_all_iff)
qed

section \<open>Field extraction\<close>

lemma name_ibm_at_start:
  "get_product_name (e\<lparr>text_blob := Some (product_tag @ rest)\<rparr>) ''ibm_store'' = []"
proof -
  have "find_list product_tag (product_tag @ rest) = Some 0"
    by (cases "product_tag @ rest") (simp_all add: product_tag_def)
  then show ?thesis by (simp add: get_product_name_def py_find_def)
qed

lemma occurs_at_single: "occurs_at [c] s j = (j < length s \<and> s ! j = c)"
proof (cases "j < length s")
  case True
  then have "drop j s = s ! j # drop (Suc j) s" by (simp add: Cons_nth_drop_Suc)
  then show ?thesis using True by (simp add: occurs_at_def)
next
  case False
  then show ?thesis by (simp add: occurs_at_def)
qed

lemma take_drop_inner: "take (length mid - 2) (drop 1 (mid @ rest)) = butlast (tl mid)"
  by (cases mid) (simp_all add: butlast_conv_take)

lemma url_amazon_last:
  assumes pre: "pre \<noteq> []"
    and lastT: "\<forall>j>length pre. \<not> occurs_at amazon_href_tag (pre @ amazon_href_tag @ mid @ ''>'' @ post) j"
    and gt: "CHR ''>'' \<notin> set mid"
  shows "get_product_url (e\<lparr>html := Some (pre @ amazon_href_tag @ mid @ ''>'' @ post)\<rparr>) ''amazon''
         = butlast (tl mid)"
proof -
  define h where "h = pre @ amazon_href_tag @ mid @ ''>'' @ post"
  define a where "a = int (length pre) + int (length amazon_href_tag)"
  have ne: "amazon_href_tag \<noteq> []" by (simp add: amazon_href_tag_def)
  have fp: "rfind_list amazon_href_tag h = Some (length pre)"
    unfolding h_def using ne occurs_at_here lastT by (rule rfind_list_last)
  have "\<not> occurs_at ''>'' (mid @ ''>'' @ post) j" if "j < length mid" for j
  proof
    assume "occurs_at ''>'' (mid @ ''>'' @ post) j"
    with that have "mid ! j = CHR ''>''" by (simp add: occurs_at_single nth_append)
    moreover from that have "mid ! j \<in> set mid" by (rule nth_mem)
    ultimately show False using gt by simp
  qed
  with occurs_at_here [of "''>''" mid post]
  have fc: "find_list ''>'' (mid @ ''>'' @ post) = Some (length mid)"
    by (intro find_list_first) simp_all
  have na: "nat a = length pre + length amazon_href_tag" "0 \<le> a" "a \<le> int (length h)"
    by (simp_all add: a_def h_def)
  have dr: "drop (nat a) h = mid @ ''>'' @ post"
    by (simp add: na h_def)
  have sidx: "py_rfind h amazon_href_tag = int (length pre)"
    by (simp add: py_rfind_def fp)
  have "py_find_range h ''>'' a (int (length h)) =
       (case find_list ''>'' (drop (nat a) h) of None \<Rightarrow> -1 | Some i \<Rightarrow> a + int i)"
    using na(2,3) by (rule py_find_range_suffix)
  then have eidx: "py_find_range h ''>'' a (int (length h)) = a + int (length mid)"
    by (simp only: dr fc option.case)
  have sl: "py_slice h (a + 1) (a + int (length mid) - 1) = butlast (tl mid)"
  proof -
    have "py_slice h (a + 1) (a + int (length mid) - 1)
        = take (nat (a + int (length mid) - 1) - nat (a + 1)) (drop (nat (a + 1)) h)"
    proof (rule py_slice_nonneg)
      show "0 \<le> a + int (length mid) - 1" using pre by (simp add: a_def amazon_href_tag_def)
      show "a + int (length mid) - 1 \<le> int (length h)" by (simp add: a_def h_def)
      show "a + 1 \<le> int (length h)" by (simp add: a_def h_def)
    qed (use na in simp_all)
    moreover have "nat (a + int (length mid) - 1) - nat (a + 1) = length mid - 2"
      using na(2) by simp
    moreover have "drop (nat (a + 1)) h = drop 1 (drop (nat a) h)"
      using na(2) by (simp add: nat_add_distrib add.commute)
    ultimately show ?thesis by (simp only: dr take_drop_inner)
  qed
  from pre have pos: "0 < int (length pre)" "0 < a + int (length mid)"
    by (simp_all add: a_def amazon_href_tag_def)
  have "get_product_url (e\<lparr>html := Some h\<rparr>) ''amazon'' = butlast (tl mid)"
    unfolding get_product_url_def Let_def
    using pre by (simp add: sidx eidx sl pos flip: a_def)
  then show ?thesis by (simp only: h_def)
qed

lemma url_amazon_absent:
  assumes "\<forall>j. \<not> occurs_at amazon_href_tag h j"
  shows "get_product_url (e\<lparr>html := Some h\<rparr>) ''amazon'' = []"
proof -
  from assms have "rfind_list amazon_href_tag h = None" by (rule rfind_list_absent)
  then show ?thesis by (simp add: get_product_url_def py_rfind_def)
qed

section \<open>The formatter loop\<close>

lemma format_loop_spec:
  "\<forall>i \<in> set is. i < length rs \<Longrightarrow>
   format_loop rs ds is n out =
     Some (out @ map (\<lambda>p. make_product_data (rs ! snd p) ds (n + int (fst p))) (enumerate 0 is))"
proof (induction "is" arbitrary: n out)
  case Nil
  then show ?case by simp
next
  case (Cons i "is")
  have "map (\<lambda>p. make_product_data (rs ! snd p) ds (n + int (fst p))) (enumerate (Suc 0) is)
        = map (\<lambda>p. make_product_data (rs ! snd p) ds (n + 1 + int (fst p))) (enumerate 0 is)"
    by (rule nth_equalityI) (simp_all add: nth_enumerate_eq add.assoc)
  with Cons show ?case by simp
qed

lemma format_discovery_response_eq:
  "format_discovery_response response ds =
     Some (map (\<lambda>p. make_product_data (snd p) ds (int (fst p) + 1))
             (enumerate 0 (take DISCOVERY_KEEP_COUNT (case results response of None \<Rightarrow> [] | Some rs \<Rightarrow> rs))))"
proof (cases "results response")
  case None
  then show ?thesis by (simp add: format_discovery_response_def)
next
  case (Some rs)
  let ?m = "min (length rs) DISCOVERY_KEEP_COUNT"
  have "format_loop rs ds [0 ..< ?m] 1 [] =
     Some ([] @ map (\<lambda>p. make_product_data (rs ! snd p) ds (1 + int (fst p))) (enumerate 0 [0 ..< ?m]))"
    by (rule format_loop_spec) simp
  moreover have "map (\<lambda>p. make_product_data (rs ! snd p) ds (1 + int (fst p))) (enumerate 0 [0 ..< ?m])
     = map (\<lambda>p. make_product_data (snd p) ds (int (fst p) + 1)) (enumerate 0 (take DISCOVERY_KEEP_COUNT rs))"
    by (rule nth_equalityI) (simp_all add: nth_enumerate_eq add.commute min.commute)
  ultimately show ?thesis using Some
    by (simp add: format_discovery_response_def)
qed

section \<open>Name extraction for the source \<open>ibm_store\<close>\<close>

text \<open>
  C10. For the source \<open>ibm_store\<close>, a text blob that begins with the marker \<open>Product:\<close>
  gives the empty name, whatever follows and even when a \<open>Category:\<close> marker is there:
  \<open>find\<close> returns index 0, and the extractor accepts a marker only at an index above 0.
\<close>

theorem ibm_store_name_marker_at_start:
  "get_product_name (e\<lparr>text_blob := Some (product_tag @ rest)\<rparr>) ''ibm_store'' = []"
  by (rule name_ibm_at_start)

text \<open>
  C8. On the text \<open>...Product: Red Mug Category: Drinkware...\<close> the extractor for
  \<open>ibm_store\<close> does not return \<open>Red Mug\<close>: the name comes back with the separator that
  follows the \<open>Product:\<close> marker still in front of it. The slice starts at the end of the
  marker and leaves out only the character before \<open>Category:\<close>, whereas the slice of the
  \<open>amazon\<close> URL leaves out the boundary character on either side.
\<close>

theorem ibm_store_red_mug_keeps_separator:
  "get_product_name (demo_entry ''...Product: Red Mug Category: Drinkware...'') ''ibm_store''
     = '' Red Mug''"
  by (simp add: demo_entry_def get_product_name_def py_find_def py_find_range_def py_slice_def
        py_bound_def product_tag_def category_tag_def)

section \<open>The formatted list\<close>

text \<open>
  C5. For every response given to the formatter, the output has the length of the input
  results cut at the keep-count (so at most both), its \<open>cart_number\<close> fields are the
  decimal strings of 1, 2, ..., up to the length of the output, and the entry at each
  position is built from the input result at that position.
\<close>

theorem formatter_length_and_ordinals:
  "\<exists>out. format_discovery_response response ds = Some out
     \<and> length out = min DISCOVERY_KEEP_COUNT
                      (length (case results response of None \<Rightarrow> [] | Some rs \<Rightarrow> rs))
     \<and> map cart_number out = map (\<lambda>i. py_str (int i)) [1 ..< Suc (length out)]
     \<and> out = map (\<lambda>p. make_product_data (snd p) ds (int (fst p) + 1))
               (enumerate 0 (take (length out)
                  (case results response of None \<Rightarrow> [] | Some rs \<Rightarrow> rs)))"
proof -
  let ?rs = "case results response of None \<Rightarrow> [] | Some rs \<Rightarrow> rs"
  let ?out = "map (\<lambda>p. make_product_data (snd p) ds (int (fst p) + 1))
                (enumerate 0 (take DISCOVERY_KEEP_COUNT ?rs))"
  have eq: "format_discovery_response response ds = Some ?out"
    by (rule format_discovery_response_eq)
  have len: "length ?out = min DISCOVERY_KEEP_COUNT (length ?rs)"
    by (simp add: min.commute)
  have ord: "map cart_number ?out = map (\<lambda>i. py_str (int i)) [1 ..< Suc (length ?out)]"
    by (rule nth_equalityI)
       (simp_all add: nth_enumerate_eq make_product_data_def add.commute del: upt_Suc)
  have "take (length ?out) ?rs = take DISCOVERY_KEEP_COUNT ?rs"
    by (simp add: min_def)
  with eq len ord show ?thesis by (simp del: upt_Suc)
qed

section \<open>The context merge\<close>

text \<open>
  C7. For all context dictionaries A and B, \<open>context_merge A B\<close> has at every key the
  value of B when B has the key, and the value of A otherwise; and when some key has
  different values in A and in B, merging in the other order gives a different dictionary.
\<close>

theorem context_merge_right_biased:
  "(\<forall>k. fmlookup (context_merge A B) k
          = (case fmlookup B k of Some v \<Rightarrow> Some v | None \<Rightarrow> fmlookup A k))
   \<and> (\<forall>k. fmlookup A k \<noteq> None \<and> fmlookup B k \<noteq> None \<and> fmlookup A k \<noteq> fmlookup B k
          \<longrightarrow> context_merge A B \<noteq> context_merge B A)"
proof -
  have look: "fmlookup (context_merge A B) k
          = (case fmlookup B k of Some v \<Rightarrow> Some v | None \<Rightarrow> fmlookup A k)" for A B :: context_dict and k
    by (auto simp: context_merge_def Let_def fmlookup_dom_iff split: option.splits)
  have "context_merge A B \<noteq> context_merge B A"
    if "fmlookup A k \<noteq> None" "fmlookup B k \<noteq> None" "fmlookup A k \<noteq> fmlookup B k" for k
  proof
    assume "context_merge A B = context_merge B A"
    then have "fmlookup (context_merge A B) k = fmlookup (context_merge B A) k" by simp
    with that show False by (auto simp: look split: option.splits)
  qed
  with look show ?thesis by blast
qed

theorem context_merge_right_biased_witness:
  "fmlookup (context_merge (ctx_of [(''a'', PInt 1), (''k'', PInt 1)]) (ctx_of [(''k'', PInt 2)])) ''k''
     = Some (PInt 2)
   \<and> fmlookup (context_merge (ctx_of [(''a'', PInt 1), (''k'', PInt 1)]) (ctx_of [(''k'', PInt 2)])) ''a''
     = Some (PInt 1)
   \<and> context_merge (ctx_of [(''a'', PInt 1), (''k'', PInt 1)]) (ctx_of [(''k'', PInt 2)])
     \<noteq> context_merge (ctx_of [(''k'', PInt 2)]) (ctx_of [(''a'', PInt 1), (''k'', PInt 1)])"
  using context_merge_right_biased
    [of "ctx_of [(''a'', PInt 1), (''k'', PInt 1)]" "ctx_of [(''k'', PInt 2)]"]
  by (simp add: ctx_of_def fmlookup_of_list)

section \<open>The score filter\<close>

lemma score_pred_eq:
  "filter (\<lambda>x. case score x of None \<Rightarrow> False | Some v \<Rightarrow> v > t) rs
   = filter (\<lambda>x. score x \<noteq> None \<and> t < the (score x)) rs"
  by (rule filter_cong) (auto split: option.splits)

text \<open>
  C6. When the configured minimum score is above 0 and the response has results, the
  filter keeps exactly the results that have a score strictly greater than the minimum, in
  their original order (results without a score are dropped); with the minimum 0 the
  response is left as it is. With the minimum 0.6 and the scores 0.9, 0.4, 0.7 and none,
  the results scoring 0.9 and 0.7 survive.
\<close>

theorem score_filter_keeps_strictly_greater:
  "(0 < t \<and> results dr = Some rs \<longrightarrow>
      results (score_filter t dr) = Some (filter (\<lambda>x. score x \<noteq> None \<and> t < the (score x)) rs)
      \<and> subseq (the (results (score_filter t dr))) rs)
   \<and> score_filter 0 dr = dr"
  by (simp add: score_filter_def Let_def score_pred_eq)

theorem score_filter_keeps_strictly_greater_witness:
  "results (score_filter (6 / 10)
      \<lparr> results = Some [demo_scored (Some (9 / 10)), demo_scored (Some (4 / 10)),
                        demo_scored (Some (7 / 10)), demo_scored None],
        matching_results = None \<rparr>)
   = Some [demo_scored (Some (9 / 10)), demo_scored (Some (7 / 10))]"
  using score_filter_keeps_strictly_greater [of "6 / 10"
      "\<lparr> results = Some [demo_scored (Some (9 / 10)), demo_scored (Some (4 / 10)),
                        demo_scored (Some (7 / 10)), demo_scored None],
        matching_results = None \<rparr>"
      "[demo_scored (Some (9 / 10)), demo_scored (Some (4 / 10)),
                        demo_scored (Some (7 / 10)), demo_scored None]"]
  by (simp add: demo_scored_def del: not_None_eq)

section \<open>URL extraction for the source \<open>amazon\<close>\<close>

text \<open>
  C9. For the source \<open>amazon\<close>, the URL is taken from the last occurrence of the pattern
  \<open><a href=\<close> in the HTML blob: when that occurrence is not at the very start of the blob
  (as it never is when the pattern occurs twice or more) and a \<open>>\<close> follows it, the URL is
  what stands between the pattern and that next \<open>>\<close>, without its first and its last
  character (the two quotes). When the pattern does not occur, the URL is the empty string.
\<close>

theorem amazon_url_last_anchor:
  "(pre \<noteq> []
      \<and> (\<forall>j>length pre. \<not> occurs_at amazon_href_tag (pre @ amazon_href_tag @ mid @ ''>'' @ post) j)
      \<and> CHR ''>'' \<notin> set mid
    \<longrightarrow> get_product_url (e\<lparr>html := Some (pre @ amazon_href_tag @ mid @ ''>'' @ post)\<rparr>) ''amazon''
          = butlast (tl mid))
   \<and> ((\<forall>j. \<not> occurs_at amazon_href_tag h j)
    \<longrightarrow> get_product_url (e\<lparr>html := Some h\<rparr>) ''amazon'' = [])"
  using url_amazon_last [of pre mid post e] url_amazon_absent [of h e]
  by blast

theorem amazon_url_last_anchor_witness:
  "get_product_url (demo_html (demo_anchor ''u1'' @ demo_anchor ''u2'')) ''amazon'' = ''u2''"
proof -
  let ?pre = "demo_anchor ''u1''"
  let ?mid = "dquote @ ''u2'' @ dquote"
  let ?post = "''link</a>''"
  have ne: "amazon_href_tag \<noteq> []" by (simp add: amazon_href_tag_def)
  have a: "\<forall>j>length ?pre. \<not> occurs_at amazon_href_tag (?pre @ amazon_href_tag @ ?mid @ ''>'' @ ?post) j"
    unfolding all_greater_list_all [OF ne]
    by (simp add: occurs_at_def amazon_href_tag_def demo_anchor_def dquote_def)
  have b: "?pre \<noteq> []" by (simp add: demo_anchor_def)
  have c: "CHR ''>'' \<notin> set ?mid" by (simp add: dquote_def)
  have d: "?pre @ amazon_href_tag @ ?mid @ ''>'' @ ?post = demo_anchor ''u1'' @ demo_anchor ''u2''"
    by (simp add: demo_anchor_def)
  from a b c have "get_product_url (demo_html [] \<lparr>html := Some (?pre @ amazon_href_tag @ ?mid @ ''>'' @ ?post)\<rparr>) ''amazon''
          = butlast (tl ?mid)"
    using amazon_url_last_anchor [of ?pre ?mid ?post "demo_html []" "[]"] by blast
  then show ?thesis unfolding d by (simp add: demo_html_def dquote_def)
qed

section \<open>Deleting from the cart\<close>

lemma delete_loop_no_match:
  "\<forall>p \<in> set xs. int (fst p) + 1 \<noteq> k \<Longrightarrow> delete_loop sv em k xs st = st"
  by (induction xs arbitrary: st) auto

lemma enumerate_out_of_range:
  assumes "k < 1 \<or> int (length xs) < k"
  shows "\<forall>p \<in> set (enumerate 0 xs). int (fst p) + 1 \<noteq> k"
  using assms by (auto simp: in_set_enumerate_eq)

text \<open>
  C4. With a customer in the session, a stored cart of length n and a \<open>cart_item\<close> that
  \<open>int\<close> reads as k with \<open>k < 1\<close> or \<open>k > n\<close>, the delete handler returns normally with
  "no input required": the only call to the store is the listing of the cart, no delete
  call is issued, the store and so the cart are as before, and nothing is sent to the user.
\<close>

theorem delete_out_of_range_is_noop:
  assumes "customer st = Some c"
    and "fmlookup (wos_context st) ''cart_item'' = Some v"
    and "py_int v = Inr k"
    and "k < 1 \<or> int (length (list_shopping_cart sv (cloudant st) (email c))) < k"
  shows "\<exists>st'. handle_delete_from_cart sv st = Inr (False, st')
           \<and> cloudant st' = cloudant st
           \<and> store_calls st' = store_calls st @ [ListShoppingCart (email c)]
           \<and> list_shopping_cart sv (cloudant st') (email c)
               = list_shopping_cart sv (cloudant st) (email c)
           \<and> sent st' = sent st"
proof -
  let ?em = "email c"
  let ?xs = "list_shopping_cart sv (cloudant st) ?em"
  let ?st1 = "st \<lparr> store_calls := store_calls st @ [ListShoppingCart ?em] \<rparr>"
  from assms(4) have "\<forall>p \<in> set (enumerate 0 ?xs). int (fst p) + 1 \<noteq> k"
    by (rule enumerate_out_of_range)
  then have loop: "delete_loop sv ?em k (enumerate 0 ?xs) ?st1 = ?st1"
    by (rule delete_loop_no_match)
  have "handle_delete_from_cart sv st = Inr (False, clear_shopping_cart ?st1)"
    using assms(1-3) loop by (simp add: handle_delete_from_cart_def Let_def)
  then show ?thesis by (simp add: clear_shopping_cart_def)
qed

theorem delete_out_of_range_is_noop_witness:
  "\<exists>st'. handle_delete_from_cart (demo_services fmempty)
            (demo_store (ctx_of [(''shopping_cart'', PStr ''delete''), (''cart_item'', PStr ''3'')])
               (Some demo_customer)) = Inr (False, st')
        \<and> cloudant st' ''ann@example.com'' = [''mug'', ''pen'']
        \<and> store_calls st' = [ListShoppingCart ''ann@example.com'']"
proof -
  let ?st = "demo_store (ctx_of [(''shopping_cart'', PStr ''delete''), (''cart_item'', PStr ''3'')])
               (Some demo_customer)"
  have a: "customer ?st = Some demo_customer" by (simp add: demo_store_def)
  have b: "fmlookup (wos_context ?st) ''cart_item'' = Some (PStr ''3'')"
    by (simp add: demo_store_def ctx_of_def fmlookup_of_list)
  have c: "py_int (PStr ''3'') = Inr 3"
    by (simp add: strip_def is_space_def int_of_digits_def is_digit_def digits_val_def digit_val_def)
  have d: "(3::int) < 1 \<or> int (length (list_shopping_cart (demo_services fmempty) (cloudant ?st)
              (email demo_customer))) < 3"
    by (simp add: demo_services_def demo_store_def demo_customer_def)
  from delete_out_of_range_is_noop [OF a b c d]
  show ?thesis by (auto simp: demo_store_def demo_customer_def)
qed

section \<open>The order of the context checks\<close>






section \<open>Cart handlers on unusable input\<close>

text \<open>
  C2. With \<open>cart_item\<close> the non-numeric string \<open>abc\<close>, the add and the delete handler
  leave the stored cart alone, but they return from inside the \<open>except ValueError\<close> branch,
  before \<open>clear_shopping_cart\<close> is reached: \<open>shopping_cart\<close> and \<open>cart_item\<close> keep their
  values, where the numeric path of the same handlers clears both.
\<close>

theorem non_numeric_cart_item_not_cleared:
  "handle_add_to_cart (demo_services fmempty)
     (demo_store (ctx_of [(''shopping_cart'', PStr ''add''), (''cart_item'', PStr ''abc'')])
        (Some demo_customer))
   = Inr (False,
       demo_store (ctx_of [(''shopping_cart'', PStr ''add''), (''cart_item'', PStr ''abc'')])
        (Some demo_customer))
   \<and> handle_delete_from_cart (demo_services fmempty)
     (demo_store (ctx_of [(''shopping_cart'', PStr ''delete''), (''cart_item'', PStr ''abc'')])
        (Some demo_customer))
   = Inr (False,
       demo_store (ctx_of [(''shopping_cart'', PStr ''delete''), (''cart_item'', PStr ''abc'')])
        (Some demo_customer) \<lparr> store_calls := [ListShoppingCart ''ann@example.com''] \<rparr>)
   \<and> fmlookup (ctx_of [(''shopping_cart'', PStr ''add''), (''cart_item'', PStr ''abc'')])
        ''shopping_cart'' = Some (PStr ''add'')
   \<and> fmlookup (ctx_of [(''shopping_cart'', PStr ''add''), (''cart_item'', PStr ''abc'')])
        ''cart_item'' = Some (PStr ''abc'')"
proof -
  have i: "py_int (PStr ''abc'') = Inl ValueError"
    by (simp add: strip_def is_space_def int_of_digits_def is_digit_def)
  show ?thesis
    by (simp add: handle_add_to_cart_def handle_delete_from_cart_def i demo_store_def
          demo_customer_def demo_services_def ctx_of_def fmlookup_of_list Let_def
          del: py_int.simps)
qed

text \<open>
  C3. Without a customer in the session the cart handlers do not run as no-ops: reading
  \<open>self.customer.email\<close> raises AttributeError in the list and the delete handler, and in
  the add handler as soon as \<open>cart_item\<close> is a number; nothing catches it, so
  \<open>handle_message\<close> ends with that exception.
\<close>

theorem null_customer_cart_actions_raise:
  "handle_list_shopping_cart sv (st \<lparr> customer := None \<rparr>) = Inl AttributeError
   \<and> handle_delete_from_cart sv (st \<lparr> customer := None \<rparr>) = Inl AttributeError
   \<and> handle_add_to_cart sv
        (st \<lparr> customer := None, wos_context := fmupd ''cart_item'' (PInt 1) (wos_context st) \<rparr>)
      = Inl AttributeError
   \<and> handle_message (demo_services (ctx_of [(''shopping_cart'', PStr ''list'')])) ''show my cart''
        (demo_store fmempty None) = Inl AttributeError"
  by (simp add: handle_list_shopping_cart_def handle_delete_from_cart_def handle_add_to_cart_def
        handle_message_def context_action_def demo_services_def demo_store_def ctx_of_def
        fmlookup_of_list)

end
